theory Spec2Isabelle
  imports Main "HOL-Library.Word"
begin

section \<open>The jevt plugin: extracting fields from JSON events\<close>

text \<open>
  A shallow embedding of \<^verbatim>\<open>plugins/jevt/jevt.go\<close>. The plugin is one exported function,
  \<^verbatim>\<open>plugin_extract_str\<close>, around three libraries: the fastjson parser and its
  key-path lookup, \<^verbatim>\<open>encoding/json\<close>'s \<^verbatim>\<open>Indent\<close>, and the plugin SDK's shared buffer.

  The libraries are dependencies of the plugin; their code is not part of its source.
  \<^item> The two functions that read JSON text, \<^verbatim>\<open>Parser.Parse\<close> and \<^verbatim>\<open>json.Indent\<close>, are
    parameters of the model (\<open>Parse\<close> and \<open>Indent\<close>): an error text on the left, the result
    on the right.
  \<^item> The key-path lookup \<^verbatim>\<open>Value.GetStringBytes\<close> works on the parsed tree and is
    modelled below after the library's documented behaviour (\<^verbatim>\<open>Get\<close>: array indexes
    may be represented as decimal numbers in keys; nil for a path that does not exist
    or a value of another type).
  \<^item> A C string argument is the Go string \<^verbatim>\<open>C.GoString\<close> makes of it: a null pointer and
    an empty C string are both \<open>[]\<close>. The parameter \<^verbatim>\<open>datalen\<close> is not read by the code
    and is left out.
\<close>

subsection \<open>JSON values and the key-path lookup of fastjson\<close>

datatype jvalue =
    JNull
  | JTrue
  | JFalse
  | JNumber string
  | JString string
  | JArray "jvalue list"
  | JObject "(string \<times> jvalue) list"

text \<open>
  \<^verbatim>\<open>strconv.Atoi\<close> on a 64-bit platform: an optional sign, then one or more decimal
  digits and nothing else; a value outside the range of \<^verbatim>\<open>int\<close> is an error.
\<close>

definition is_digit :: "char \<Rightarrow> bool" where
  "is_digit c = (48 \<le> (of_char c :: nat) \<and> (of_char c :: nat) \<le> 57)"

definition digits_value :: "string \<Rightarrow> nat" where
  "digits_value ds = foldl (\<lambda>n ch. n * 10 + (of_char ch - 48)) (0::nat) ds"

definition Atoi :: "string \<Rightarrow> int option" where
  "Atoi s =
     (let neg = (case s of c # _ \<Rightarrow> c = CHR ''-'' | [] \<Rightarrow> False);
          ds = (case s of c # cs \<Rightarrow> if c = CHR ''-'' \<or> c = CHR ''+'' then cs else s | [] \<Rightarrow> []);
          n = (if neg then - int (digits_value ds) else int (digits_value ds))
      in if ds = [] \<or> \<not> list_all is_digit ds then None
         else if n < - (2 ^ 63) \<or> 2 ^ 63 \<le> n then None
         else Some n)"

text \<open>
  \<^verbatim>\<open>Value.Get(keys...)\<close>: a nil receiver gives nil; an object is searched for the
  first member with the key; an array is indexed by the key read as a decimal number;
  any other value with a key left gives nil. \<open>None\<close> is the nil pointer. The member
  names of a \<open>JObject\<close> are the unescaped names.
\<close>

fun Get :: "jvalue option \<Rightarrow> string list \<Rightarrow> jvalue option" where
  "Get None keys = None"
| "Get (Some v) [] = Some v"
| "Get (Some v) (key # keys) =
     (case v of
        JObject kvs \<Rightarrow>
          (case map_of kvs key of
             None \<Rightarrow> None
           | Some v' \<Rightarrow> Get (Some v') keys)
      | JArray a \<Rightarrow>
          (case Atoi key of
             None \<Rightarrow> None
           | Some n \<Rightarrow>
               if n < 0 \<or> int (length a) \<le> n then None
               else Get (Some (a ! nat n)) keys)
      | _ \<Rightarrow> None)"

text \<open>
  \<^verbatim>\<open>Value.GetStringBytes(keys...)\<close>: the bytes of the string found by \<open>Get\<close>, nil when
  nothing is found or the value found is not a string.
\<close>

definition GetStringBytes :: "jvalue option \<Rightarrow> string list \<Rightarrow> string option" where
  "GetStringBytes v keys =
     (case Get v keys of
        Some (JString s) \<Rightarrow> Some s
      | _ \<Rightarrow> None)"

subsection \<open>Splitting the path\<close>

text \<open>
  \<^verbatim>\<open>strings.Split(s, "/")\<close>, for a separator of one byte: the pieces between the
  separators, one more than there are separators, so never an empty list.
\<close>

fun Split :: "string \<Rightarrow> char \<Rightarrow> string list" where
  "Split [] sep = [[]]"
| "Split (c # cs) sep =
     (if c = sep then [] # Split cs sep
      else (case Split cs sep of
              w # ws \<Rightarrow> (c # w) # ws
            | [] \<Rightarrow> [[c]]))"

subsection \<open>The plugin state\<close>

text \<open>
  \<^verbatim>\<open>pluginContext\<close>. The parser object \<open>jparser\<close> is represented by the texts it has
  been asked to parse, newest first; that is what a parse counter observes.
  \<open>jdata\<close> is a pointer to the parsed value (\<open>None\<close> is nil), \<open>lastError\<close> the text of
  the stored error (\<open>None\<close> is nil).
\<close>

record pluginContext =
  jparser :: "string list"
  jdata :: "jvalue option"
  jdataEvtnum :: "64 word"
  lastError :: "string option"

text \<open>
  The state container of the SDK holds the context and the shared output buffer.
  The buffer is represented by the byte strings handed to \<^verbatim>\<open>sinsp.CopyToBuffer\<close>,
  newest first: the head is what the buffer was last asked to hold, and a call that
  leaves the list as it was wrote nothing. What the SDK does with a text longer than
  the buffer (\<^verbatim>\<open>outBufSize\<close>, 65535 bytes) is the SDK's and is not modelled.
\<close>

record pluginState = pluginContext +
  copied :: "string list"

text \<open>\<^verbatim>\<open>plugin_init\<close>: a zero-valued context and a buffer nothing has been copied to.\<close>

definition plugin_init :: "pluginState" where
  "plugin_init =
     \<lparr> jparser = [], jdata = None, jdataEvtnum = 0, lastError = None, copied = [] \<rparr>"

definition plugin_get_last_error :: "pluginState \<Rightarrow> string" where
  "plugin_get_last_error plgState =
     (case lastError plgState of
        Some e \<Rightarrow> e
      | None \<Rightarrow> ''no error'')"

subsection \<open>Field identifiers\<close>

definition FieldIDValue :: "32 word" where
  "FieldIDValue = 0"

definition FieldIDMsg :: "32 word" where
  "FieldIDMsg = 1"

subsection \<open>Extraction\<close>

text \<open>
  What a call of \<^verbatim>\<open>plugin_extract_str\<close> gives its caller: a run-time panic (the index
  expression \<^verbatim>\<open>sarg[0]\<close> on an empty string), the nil pointer, or the address of the
  shared buffer.
\<close>

datatype retval = Panic | NilPtr | BufferPtr

text \<open>
  Lines 172 to 178: the result is NUL-terminated, copied to the buffer, and the
  buffer's address is returned.
\<close>

definition publish :: "pluginState \<Rightarrow> string \<Rightarrow> retval \<times> pluginState" where
  "publish plgState res =
     (BufferPtr, plgState\<lparr> copied := (res @ [CHR 0x00]) # copied plgState \<rparr>)"

text \<open>
  The case \<^verbatim>\<open>FieldIDValue\<close> up to the lookup (lines 150 to 156): one leading \<open>/\<close> is
  dropped, the rest is split at \<open>/\<close>, and the keys are looked up in \<open>jdata\<close>. Indexing
  the empty string panics.
\<close>

datatype panic = IndexOutOfRange

definition jevt_value :: "jvalue option \<Rightarrow> string \<Rightarrow> panic + string option" where
  "jevt_value jd arg =
     (case arg of
        [] \<Rightarrow> Inl IndexOutOfRange
      | c # cs \<Rightarrow>
          (let sarg = (if c = CHR ''/'' then cs else arg);
               hc = Split sarg CHR ''/''
           in Inr (GetStringBytes jd hc)))"

text \<open>The \<^verbatim>\<open>switch\<close> on the field identifier and what follows it (lines 148 to 178).\<close>

definition extract_field ::
  "(string \<Rightarrow> string \<Rightarrow> string \<Rightarrow> string + string) \<Rightarrow> pluginState \<Rightarrow> 32 word \<Rightarrow> string \<Rightarrow> string
     \<Rightarrow> retval \<times> pluginState" where
  "extract_field Indent plgState fid arg data =
     (if fid = FieldIDValue then
        (case jevt_value (jdata plgState) arg of
           Inl _ \<Rightarrow> (Panic, plgState)
         | Inr None \<Rightarrow> (NilPtr, plgState)
         | Inr (Some val) \<Rightarrow> publish plgState val)
      else if fid = FieldIDMsg then
        (case Indent data [] ''  '' of
           Inl err \<Rightarrow> (NilPtr, plgState)
         | Inr out \<Rightarrow> publish plgState out)
      else publish plgState ''<NA>'')"

text \<open>
  \<^verbatim>\<open>plugin_extract_str\<close>. The text is parsed only when the event number differs from
  the one stored. The result of \<^verbatim>\<open>Parse\<close> is assigned to \<open>jdata\<close> before the error is
  looked at, and \<^verbatim>\<open>Parse\<close> returns nil with an error; \<open>jdataEvtnum\<close> is assigned after
  the error check.
\<close>

definition plugin_extract_str ::
  "(string \<Rightarrow> string + jvalue) \<Rightarrow> (string \<Rightarrow> string \<Rightarrow> string \<Rightarrow> string + string)
     \<Rightarrow> pluginState \<Rightarrow> 64 word \<Rightarrow> 32 word \<Rightarrow> string \<Rightarrow> string \<Rightarrow> retval \<times> pluginState" where
  "plugin_extract_str Parse Indent plgState evtnum fid arg data =
     (if evtnum \<noteq> jdataEvtnum plgState then
        (case Parse data of
           Inl err \<Rightarrow>
             (NilPtr, plgState\<lparr> jparser := data # jparser plgState, jdata := None \<rparr>)
         | Inr v \<Rightarrow>
             extract_field Indent
               (plgState\<lparr> jparser := data # jparser plgState, jdata := Some v,
                          jdataEvtnum := evtnum \<rparr>)
               fid arg data)
      else extract_field Indent plgState fid arg data)"

text \<open>
  The value of \<open>jdata\<close> once lines 135 to 146 have run: the stored pointer when the event
  number is the stored one, otherwise what \<^verbatim>\<open>Parse\<close> returned for the text.
\<close>

definition jdata_after_decode ::
  "(string \<Rightarrow> string + jvalue) \<Rightarrow> pluginState \<Rightarrow> 64 word \<Rightarrow> string \<Rightarrow> jvalue option" where
  "jdata_after_decode Parse plgState evtnum data =
     (if evtnum \<noteq> jdataEvtnum plgState then
        (case Parse data of
           Inl err \<Rightarrow> None
         | Inr v \<Rightarrow> Some v)
      else jdata plgState)"

subsection \<open>The path navigator as the specification words it\<close>





subsection \<open>Counting parses\<close>



subsection \<open>Sample texts\<close>

text \<open>
  The theorems at concrete inputs need the two library functions at concrete texts.
  \<open>Parse_sample\<close> and \<open>Indent_sample\<close> give the libraries' answers on the texts listed
  here; on every other text they answer with an error, and no statement below
  looks at them there.
\<close>

definition nl :: char where
  "nl = CHR 0x0A"

definition doc_ab :: string where
  \<open>doc_ab = ''{"a":{"b":"v"}}''\<close>

definition doc_arr :: string where
  \<open>doc_arr = ''{"a":["v"]}''\<close>

definition doc_num :: string where
  \<open>doc_num = ''{"a":1}''\<close>

definition not_json :: string where
  "not_json = ''not json''"

text \<open>
  301 arrays inside each other: JSON for \<^verbatim>\<open>json.Indent\<close>, whose scanner allows a
  nesting of 10000, and too deep for fastjson, whose \<^verbatim>\<open>MaxDepth\<close> is 300.
\<close>

definition deep_doc :: string where
  "deep_doc = CHR ''['' # replicate 300 CHR ''['' @ replicate 301 CHR '']''"

definition Indent_nested :: "nat \<Rightarrow> string" where
  "Indent_nested n =
     concat (map (\<lambda>k. replicate (2 * k) CHR '' '' @ ''['' @ [nl]) [0..<n - 1])
     @ replicate (2 * (n - 1)) CHR '' '' @ ''[]''
     @ concat (map (\<lambda>k. nl # replicate (2 * k) CHR '' '' @ '']'') (rev [0..<n - 1]))"

definition Parse_sample :: "string \<Rightarrow> string + jvalue" where
  "Parse_sample s =
     (if s = doc_ab then Inr (JObject [(''a'', JObject [(''b'', JString ''v'')])])
      else if s = doc_arr then Inr (JObject [(''a'', JArray [JString ''v''])])
      else if s = doc_num then Inr (JObject [(''a'', JNumber ''1'')])
      else if s = deep_doc then Inl ''cannot parse JSON: too big depth for the nested JSON''
      else Inl ''cannot parse JSON'')"

definition Indent_sample :: "string \<Rightarrow> string \<Rightarrow> string \<Rightarrow> string + string" where
  \<open>Indent_sample src prefix indent =
     (if prefix = [] \<and> indent = ''  '' then
        (if src = doc_ab then
           Inr (''{'' @ [nl] @ ''  "a": {'' @ [nl] @ ''    "b": "v"'' @ [nl] @ ''  }'' @ [nl] @ ''}'')
         else if src = doc_arr then
           Inr (''{'' @ [nl] @ ''  "a": ['' @ [nl] @ ''    "v"'' @ [nl] @ ''  ]'' @ [nl] @ ''}'')
         else if src = doc_num then
           Inr (''{'' @ [nl] @ ''  "a": 1'' @ [nl] @ ''}'')
         else if src = deep_doc then Inr (Indent_nested 301)
         else Inl ''invalid character'')
      else Inl ''invalid character'')\<close>

section \<open>Properties\<close>

subsection \<open>The sample texts\<close>

lemma Parse_sample_doc_ab:
  "Parse_sample doc_ab = Inr (JObject [(''a'', JObject [(''b'', JString ''v'')])])"
  by (simp add: Parse_sample_def)


lemma Parse_sample_doc_num:
  "Parse_sample doc_num = Inr (JObject [(''a'', JNumber ''1'')])"
  by (simp add: Parse_sample_def doc_ab_def doc_arr_def doc_num_def)

lemma Parse_sample_not_json:
  "Parse_sample not_json = Inl ''cannot parse JSON''"
  by (simp add: Parse_sample_def doc_ab_def doc_arr_def doc_num_def not_json_def deep_doc_def)



lemma Indent_sample_not_json:
  "Indent_sample not_json [] ''  '' = Inl ''invalid character''"
  by (simp add: Indent_sample_def doc_ab_def doc_arr_def doc_num_def not_json_def deep_doc_def)


lemma plugin_init_simps:
  "jparser plugin_init = []" "jdata plugin_init = None" "jdataEvtnum plugin_init = 0"
  "lastError plugin_init = None" "copied plugin_init = []"
  by (simp_all add: plugin_init_def)

subsection \<open>Library functions\<close>

lemma Split_not_Nil: "Split s sep \<noteq> []"
  by (induction s) (auto split: list.splits)




subsection \<open>What a call does to the context\<close>

lemma extract_field_context:
  "jparser (snd (extract_field Indent st fid arg data)) = jparser st"
  "jdata (snd (extract_field Indent st fid arg data)) = jdata st"
  "jdataEvtnum (snd (extract_field Indent st fid arg data)) = jdataEvtnum st"
  "lastError (snd (extract_field Indent st fid arg data)) = lastError st"
  by (simp_all add: extract_field_def publish_def split: sum.splits option.splits)

lemma extract_field_other:
  "fid \<noteq> FieldIDValue \<Longrightarrow> fid \<noteq> FieldIDMsg \<Longrightarrow>
   extract_field Indent st fid arg data = publish st ''<NA>''"
  by (simp add: extract_field_def)

lemma extract_field_Msg:
  "extract_field Indent st FieldIDMsg arg data =
     (case Indent data [] ''  '' of
        Inl err \<Rightarrow> (NilPtr, st)
      | Inr out \<Rightarrow> publish st out)"
  by (simp add: extract_field_def FieldIDMsg_def FieldIDValue_def)

lemma jparser_plugin_extract_str:
  "jparser (snd (plugin_extract_str Parse Indent st evtnum fid arg data)) =
     (if evtnum \<noteq> jdataEvtnum st then data # jparser st else jparser st)"
  by (simp add: plugin_extract_str_def extract_field_context split: sum.splits)

lemma jdata_plugin_extract_str:
  "jdata (snd (plugin_extract_str Parse Indent st evtnum fid arg data)) =
     jdata_after_decode Parse st evtnum data"
  by (simp add: plugin_extract_str_def jdata_after_decode_def extract_field_context
           split: sum.splits)

lemma jdataEvtnum_plugin_extract_str:
  "jdataEvtnum (snd (plugin_extract_str Parse Indent st evtnum fid arg data)) =
     (if evtnum \<noteq> jdataEvtnum st \<and> \<not> isl (Parse data) then evtnum else jdataEvtnum st)"
  by (simp add: plugin_extract_str_def extract_field_context split: sum.splits)

lemma lastError_plugin_extract_str:
  "lastError (snd (plugin_extract_str Parse Indent st evtnum fid arg data)) = lastError st"
  by (simp add: plugin_extract_str_def extract_field_context split: sum.splits)

subsection \<open>The path-value field\<close>




subsection \<open>The decode cache\<close>



text \<open>
  Claim C3 at a failing input. Event 1 has been parsed; a call for event 2 brings a
  text that does not parse. The call returns nil and leaves \<open>jdataEvtnum\<close> at 1, but
  \<open>jdata\<close> is now nil: the document of event 1 is gone, and a further call for event 1
  skips the parse and finds nothing at \<^verbatim>\<open>/a/b\<close>.
\<close>

theorem failed_parse_discards_document:
  "jdata (snd (plugin_extract_str Parse_sample Indent_sample plugin_init 1 FieldIDValue
                 ''/a/b'' doc_ab))
     = Some (JObject [(''a'', JObject [(''b'', JString ''v'')])])
   \<and> Parse_sample not_json = Inl ''cannot parse JSON''
   \<and> plugin_extract_str Parse_sample Indent_sample
       (snd (plugin_extract_str Parse_sample Indent_sample plugin_init 1 FieldIDValue
               ''/a/b'' doc_ab))
       2 FieldIDValue ''/a/b'' not_json
     = (NilPtr,
        \<lparr> jparser = [not_json, doc_ab], jdata = None, jdataEvtnum = 1, lastError = None,
          copied = [''v'' @ [CHR 0x00]] \<rparr>)
   \<and> fst (plugin_extract_str Parse_sample Indent_sample
       \<lparr> jparser = [not_json, doc_ab], jdata = None, jdataEvtnum = 1, lastError = None,
         copied = [''v'' @ [CHR 0x00]] \<rparr>
       1 FieldIDValue ''/a/b'' doc_ab) = NilPtr"
  by (simp add: Parse_sample_doc_ab Parse_sample_not_json plugin_extract_str_def
                plugin_init_def extract_field_def jevt_value_def GetStringBytes_def publish_def)

subsection \<open>Absent results and the output buffer\<close>

text \<open>
  Claim C4. A call whose parse fails, whose path does not lead to a string, or whose
  text cannot be indented returns nil and copies nothing to the output buffer.
\<close>

theorem absent_returns_nil_without_write:
  assumes "evtnum \<noteq> jdataEvtnum st \<and> isl (Parse data)
         \<or> fid = FieldIDValue
           \<and> jevt_value (jdata_after_decode Parse st evtnum data) arg = Inr None
         \<or> fid = FieldIDMsg \<and> isl (Indent data [] ''  '')"
  shows "fst (plugin_extract_str Parse Indent st evtnum fid arg data) = NilPtr
       \<and> copied (snd (plugin_extract_str Parse Indent st evtnum fid arg data)) = copied st"
  using assms
  by (cases "evtnum = jdataEvtnum st"; cases "Parse data")
     (auto simp: plugin_extract_str_def extract_field_def jdata_after_decode_def
                 FieldIDValue_def FieldIDMsg_def isl_def
           split: sum.splits option.splits)

text \<open>
  The theorem at one input for each of its three cases: a text that does not parse,
  the path \<^verbatim>\<open>/a\<close> in \<^verbatim>\<open>{"a":1}\<close> (a number at the end), and a text that cannot be
  indented on a call that skips the parse.
\<close>

theorem absent_returns_nil_without_write_witness:
  "((1 :: 64 word) \<noteq> jdataEvtnum plugin_init \<and> isl (Parse_sample not_json))
   \<and> fst (plugin_extract_str Parse_sample Indent_sample plugin_init 1 FieldIDMsg [] not_json)
       = NilPtr
   \<and> copied (snd (plugin_extract_str Parse_sample Indent_sample plugin_init 1 FieldIDMsg []
                    not_json)) = []
   \<and> jevt_value (jdata_after_decode Parse_sample plugin_init 1 doc_num) ''/a'' = Inr None
   \<and> fst (plugin_extract_str Parse_sample Indent_sample plugin_init 1 FieldIDValue ''/a''
             doc_num) = NilPtr
   \<and> copied (snd (plugin_extract_str Parse_sample Indent_sample plugin_init 1 FieldIDValue
                    ''/a'' doc_num)) = []
   \<and> isl (Indent_sample not_json [] ''  '')
   \<and> fst (plugin_extract_str Parse_sample Indent_sample plugin_init 0 FieldIDMsg [] not_json)
       = NilPtr
   \<and> copied (snd (plugin_extract_str Parse_sample Indent_sample plugin_init 0 FieldIDMsg []
                    not_json)) = []"
proof -
  have h1: "(1 :: 64 word) \<noteq> jdataEvtnum plugin_init \<and> isl (Parse_sample not_json)"
    by (simp add: plugin_init_simps Parse_sample_not_json)
  have h2: "jevt_value (jdata_after_decode Parse_sample plugin_init 1 doc_num) ''/a'' = Inr None"
    by (simp add: jdata_after_decode_def plugin_init_simps Parse_sample_doc_num jevt_value_def
                  GetStringBytes_def)
  have h3: "isl (Indent_sample not_json [] ''  '')"
    by (simp add: Indent_sample_not_json)
  from h1 have a1:
    "(1 :: 64 word) \<noteq> jdataEvtnum plugin_init \<and> isl (Parse_sample not_json)
     \<or> FieldIDMsg = FieldIDValue
       \<and> jevt_value (jdata_after_decode Parse_sample plugin_init 1 not_json) [] = Inr None
     \<or> FieldIDMsg = FieldIDMsg \<and> isl (Indent_sample not_json [] ''  '')"
    by blast
  from h2 have a2:
    "(1 :: 64 word) \<noteq> jdataEvtnum plugin_init \<and> isl (Parse_sample doc_num)
     \<or> FieldIDValue = FieldIDValue
       \<and> jevt_value (jdata_after_decode Parse_sample plugin_init 1 doc_num) ''/a'' = Inr None
     \<or> FieldIDValue = FieldIDMsg \<and> isl (Indent_sample doc_num [] ''  '')"
    by blast
  from h3 have a3:
    "(0 :: 64 word) \<noteq> jdataEvtnum plugin_init \<and> isl (Parse_sample not_json)
     \<or> FieldIDMsg = FieldIDValue
       \<and> jevt_value (jdata_after_decode Parse_sample plugin_init 0 not_json) [] = Inr None
     \<or> FieldIDMsg = FieldIDMsg \<and> isl (Indent_sample not_json [] ''  '')"
    by blast
  from absent_returns_nil_without_write
         [where Parse = Parse_sample and Indent = Indent_sample and st = plugin_init
            and evtnum = 1 and fid = FieldIDMsg and arg = "[]" and data = not_json, OF a1]
       absent_returns_nil_without_write
         [where Parse = Parse_sample and Indent = Indent_sample and st = plugin_init
            and evtnum = 1 and fid = FieldIDValue and arg = "''/a''" and data = doc_num, OF a2]
       absent_returns_nil_without_write
         [where Parse = Parse_sample and Indent = Indent_sample and st = plugin_init
            and evtnum = 0 and fid = FieldIDMsg and arg = "[]" and data = not_json, OF a3]
       h1 h2 h3
  show ?thesis by (simp add: plugin_init_simps)
qed

subsection \<open>The full-document field\<close>




subsection \<open>Reuse of the cached document\<close>

text \<open>
  Claim C6 at a failing input. On a fresh context \<open>jdataEvtnum\<close> is 0 and \<open>jdata\<close> is
  nil. A first call for event 0 skips the parse, looks the path up in the nil
  document and returns nil, although the text holds the string \<open>v\<close> at \<^verbatim>\<open>/a/b\<close>; the
  same call for event 1 parses the text and publishes \<open>v\<close>.
\<close>

theorem event_zero_reuses_absent_document:
  "plugin_extract_str Parse_sample Indent_sample plugin_init 0 FieldIDValue ''/a/b'' doc_ab
     = (NilPtr, plugin_init)
   \<and> jdata plugin_init = None
   \<and> Parse_sample doc_ab = Inr (JObject [(''a'', JObject [(''b'', JString ''v'')])])
   \<and> fst (plugin_extract_str Parse_sample Indent_sample plugin_init 1 FieldIDValue ''/a/b''
             doc_ab) = BufferPtr
   \<and> copied (snd (plugin_extract_str Parse_sample Indent_sample plugin_init 1 FieldIDValue
                    ''/a/b'' doc_ab)) = [''v'' @ [CHR 0x00]]"
  by (simp add: Parse_sample_doc_ab plugin_extract_str_def plugin_init_simps
                extract_field_def jevt_value_def GetStringBytes_def publish_def)

subsection \<open>Empty paths and empty segments\<close>

text \<open>
  Claim C7 at a failing input. With the empty string as path argument the call
  panics: \<^verbatim>\<open>sarg[0]\<close> indexes an empty string. The path \<^verbatim>\<open>/\<close> is the single empty
  segment, looked up as the key \<^verbatim>\<open>""\<close> in the root, and the empty segment of \<^verbatim>\<open>/a//b\<close>
  is looked up as the key \<^verbatim>\<open>""\<close> too.
\<close>

theorem empty_path_panics:
  "jevt_value (Some (JObject [(''a'', JObject [(''b'', JString ''v'')])])) []
     = Inl IndexOutOfRange
   \<and> fst (plugin_extract_str Parse_sample Indent_sample plugin_init 1 FieldIDValue [] doc_ab)
       = Panic
   \<and> jevt_value (Some (JObject [([], JString ''v'')])) ''/'' = Inr (Some ''v'')
   \<and> jevt_value (Some (JObject [(''a'', JObject [([], JObject [(''b'', JString ''v'')])])]))
        ''/a//b'' = Inr (Some ''v'')"
  by (simp add: Parse_sample_doc_ab plugin_extract_str_def plugin_init_simps
                extract_field_def jevt_value_def GetStringBytes_def)

subsection \<open>The full-document field and the cache\<close>

text \<open>
  Claim C8, as the code has it. A call for the full-document field makes its text from
  the raw bytes, never from the cached document: the pointer returned and the bytes
  published are the same whatever document the cache holds. The call still goes
  through the decode step: with the stored event number the cache is left as it is;
  with another one the bytes are parsed, \<open>jdata\<close> is replaced by the result (nil when
  the parse fails) and \<open>jdataEvtnum\<close> becomes the new number when the parse succeeds.
\<close>

theorem full_document_field_cache:
  "jparser (snd (plugin_extract_str Parse Indent st evtnum FieldIDMsg arg data))
     = (if evtnum \<noteq> jdataEvtnum st then data # jparser st else jparser st)
   \<and> jdata (snd (plugin_extract_str Parse Indent st evtnum FieldIDMsg arg data))
     = (if evtnum \<noteq> jdataEvtnum st
        then (case Parse data of Inl err \<Rightarrow> None | Inr v \<Rightarrow> Some v)
        else jdata st)
   \<and> jdataEvtnum (snd (plugin_extract_str Parse Indent st evtnum FieldIDMsg arg data))
     = (if evtnum \<noteq> jdataEvtnum st \<and> \<not> isl (Parse data) then evtnum else jdataEvtnum st)
   \<and> fst (plugin_extract_str Parse Indent (st\<lparr> jdata := d \<rparr>) evtnum FieldIDMsg arg data)
     = fst (plugin_extract_str Parse Indent st evtnum FieldIDMsg arg data)
   \<and> copied (snd (plugin_extract_str Parse Indent (st\<lparr> jdata := d \<rparr>) evtnum FieldIDMsg arg
                    data))
     = copied (snd (plugin_extract_str Parse Indent st evtnum FieldIDMsg arg data))"
  by (cases "evtnum = jdataEvtnum st"; cases "Parse data"; cases "Indent data [] ''  ''")
     (simp_all add: plugin_extract_str_def extract_field_Msg publish_def)

text \<open>
  Claim C8 as stated fails at the first call for event 1 on a fresh context: asking for
  the full-document field parses the text and stores the document and the event number.
\<close>

theorem full_document_field_replaces_cache:
  "jdata plugin_init = None
   \<and> jdata (snd (plugin_extract_str Parse_sample Indent_sample plugin_init 1 FieldIDMsg []
                   doc_num)) = Some (JObject [(''a'', JNumber ''1'')])
   \<and> jdataEvtnum plugin_init = 0
   \<and> jdataEvtnum (snd (plugin_extract_str Parse_sample Indent_sample plugin_init 1 FieldIDMsg
                         [] doc_num)) = 1
   \<and> jparser (snd (plugin_extract_str Parse_sample Indent_sample plugin_init 1 FieldIDMsg
                         [] doc_num)) = [doc_num]"
  by (simp add: jdata_plugin_extract_str jdata_after_decode_def jdataEvtnum_plugin_extract_str
                jparser_plugin_extract_str plugin_init_simps Parse_sample_doc_num)

subsection \<open>The last error\<close>

text \<open>
  Claim C9, as the code has it. No extraction call records a diagnostic: every call
  leaves \<open>lastError\<close> as it was, so the answer to the last-error query is the same
  before and after the call, and on a context fresh from \<^verbatim>\<open>plugin_init\<close> it is the
  text \<^verbatim>\<open>no error\<close>.
\<close>

theorem extraction_keeps_last_error:
  "lastError (snd (plugin_extract_str Parse Indent st evtnum fid arg data)) = lastError st
   \<and> plugin_get_last_error (snd (plugin_extract_str Parse Indent st evtnum fid arg data))
       = plugin_get_last_error st
   \<and> plugin_get_last_error plugin_init = ''no error''"
proof -
  have kept: "lastError (snd (plugin_extract_str Parse Indent st evtnum fid arg data))
      = lastError st"
    by (rule lastError_plugin_extract_str)
  then have "plugin_get_last_error (snd (plugin_extract_str Parse Indent st evtnum fid arg data))
      = plugin_get_last_error st"
    by (simp add: plugin_get_last_error_def)
  moreover have "plugin_get_last_error plugin_init = ''no error''"
    by (simp add: plugin_get_last_error_def plugin_init_simps)
  ultimately show ?thesis
    using kept by simp
qed

text \<open>
  Claim C9 as stated fails at a call whose text does not parse: the call returns nil,
  the parser's diagnostic is dropped, and the last-error query does not return it.
\<close>

theorem last_error_not_recorded:
  "Parse_sample not_json = Inl ''cannot parse JSON''
   \<and> fst (plugin_extract_str Parse_sample Indent_sample plugin_init 1 FieldIDValue ''/a''
             not_json) = NilPtr
   \<and> lastError (snd (plugin_extract_str Parse_sample Indent_sample plugin_init 1 FieldIDValue
                       ''/a'' not_json)) = None
   \<and> plugin_get_last_error
        (snd (plugin_extract_str Parse_sample Indent_sample plugin_init 1 FieldIDValue ''/a''
                not_json)) \<noteq> ''cannot parse JSON''"
  by (simp add: Parse_sample_not_json plugin_extract_str_def plugin_init_simps
                plugin_get_last_error_def)

subsection \<open>Unknown field identifiers\<close>

text \<open>
  Claim C10. A call whose field identifier is neither \<open>FieldIDValue\<close> (0) nor
  \<open>FieldIDMsg\<close> (1), on a text that parses, hands the text \<^verbatim>\<open><NA>\<close> with its
  terminating NUL to the output buffer and returns the buffer's address, not nil.
\<close>

theorem unknown_field_publishes_NA:
  assumes "fid \<noteq> FieldIDValue" and "fid \<noteq> FieldIDMsg" and "Parse data = Inr v"
  shows "fst (plugin_extract_str Parse Indent st evtnum fid arg data) = BufferPtr
       \<and> copied (snd (plugin_extract_str Parse Indent st evtnum fid arg data))
           = (''<NA>'' @ [CHR 0x00]) # copied st"
  using assms by (simp add: plugin_extract_str_def extract_field_other publish_def)

text \<open>The theorem at the field identifier 2 and the text \<^verbatim>\<open>{"a":1}\<close>.\<close>

theorem unknown_field_publishes_NA_witness:
  "(2 :: 32 word) \<noteq> FieldIDValue \<and> (2 :: 32 word) \<noteq> FieldIDMsg
   \<and> Parse_sample doc_num = Inr (JObject [(''a'', JNumber ''1'')])
   \<and> fst (plugin_extract_str Parse_sample Indent_sample plugin_init 1 2 [] doc_num) = BufferPtr
   \<and> copied (snd (plugin_extract_str Parse_sample Indent_sample plugin_init 1 2 [] doc_num))
       = [''<NA>'' @ [CHR 0x00]]"
proof -
  have h1: "(2 :: 32 word) \<noteq> FieldIDValue" by (simp add: FieldIDValue_def)
  have h2: "(2 :: 32 word) \<noteq> FieldIDMsg" by (simp add: FieldIDMsg_def)
  note h3 = Parse_sample_doc_num
  from unknown_field_publishes_NA
         [where Parse = Parse_sample and Indent = Indent_sample and st = plugin_init
            and evtnum = 1 and arg = "[]", OF h1 h2 h3] h1 h2 h3
  show ?thesis by (simp add: plugin_init_simps)
qed

end
